theory Spec2Isabelle
  imports Main "HOL-Library.Word"
begin

unbundle bit_operations_syntax

section \<open>The ARMv7-M interrupt protocol of avatar2\<close>

text \<open>
  A shallow embedding of \<^verbatim>\<open>avatar2/protocols/armv7m_interrupt.py\<close>: the two ctypes
  records, the listener thread \<^verbatim>\<open>run\<close>, and the methods \<^verbatim>\<open>stop\<close>,
  \<^verbatim>\<open>enable_interrupts\<close>, \<^verbatim>\<open>inject_interrupt\<close>,
  \<^verbatim>\<open>send_interrupt_exit_response\<close> and \<^verbatim>\<open>shutdown\<close> of
  \<^verbatim>\<open>ARMV7MInterruptProtocol\<close>.

  Mutation is explicit state passing: every method takes the protocol object and the
  world outside it (the monitor, the POSIX message queues, the avatar queue, the logger
  and standard output) and returns both. A raised exception is a value \<open>Inl e\<close>; a call
  that never returns is \<open>None\<close>.
\<close>

subsection \<open>Bytes and the layout of a ctypes structure\<close>

type_synonym byte = "8 word"

text \<open>
  A \<^verbatim>\<open>ctypes.Structure\<close> stores its fields in declaration order, each at its natural
  alignment, in the byte order of the host. The byte order is a parameter of the codec.
\<close>

datatype byteorder = LittleEndian | BigEndian

fun to_bytes_le :: "nat \<Rightarrow> 'a::len word \<Rightarrow> byte list" where
  "to_bytes_le 0 w = []"
| "to_bytes_le (Suc n) w = ucast w # to_bytes_le n (drop_bit 8 w)"

fun from_bytes_le :: "byte list \<Rightarrow> 'a::len word" where
  "from_bytes_le [] = 0"
| "from_bytes_le (b # bs) = ucast b OR push_bit 8 (from_bytes_le bs)"

definition to_bytes :: "byteorder \<Rightarrow> nat \<Rightarrow> 'a::len word \<Rightarrow> byte list" where
  "to_bytes bo n w =
     (case bo of LittleEndian \<Rightarrow> to_bytes_le n w | BigEndian \<Rightarrow> rev (to_bytes_le n w))"

definition from_bytes :: "byteorder \<Rightarrow> byte list \<Rightarrow> 'a::len word" where
  "from_bytes bo bs =
     (case bo of LittleEndian \<Rightarrow> from_bytes_le bs | BigEndian \<Rightarrow> from_bytes_le (rev bs))"

subsection \<open>Exceptions\<close>

text \<open>
  The exceptions the module raises or meets. \<open>Exception\<close> carries the format string of
  its message and the class the message names.
\<close>

datatype error =
    Exception string string
  | ValueError
  | AttributeError
  | RuntimeError
  | ExistentialError
  | BusyError

subsection \<open>The wire records\<close>

text \<open>
  \<^verbatim>\<open>V7MInterruptExitReq\<close>: \<^verbatim>\<open>id\<close> (\<^verbatim>\<open>c_uint64\<close>) at offset 0, \<^verbatim>\<open>num_irq\<close>
  (\<^verbatim>\<open>c_uint32\<close>) at offset 8, \<^verbatim>\<open>type\<close> (\<^verbatim>\<open>c_uint32\<close>) at offset 12; 16 bytes.
\<close>

record V7MInterruptExitReq =
  req_id :: "64 word"
  num_irq :: "32 word"
  req_type :: "32 word"

text \<open>
  \<^verbatim>\<open>V7MInterruptExitResp\<close>: \<^verbatim>\<open>id\<close> at offset 0, \<^verbatim>\<open>success\<close> at offset 8, and four
  bytes of tail padding up to the alignment of the 64-bit field; 16 bytes.
\<close>

record V7MInterruptExitResp =
  resp_id :: "64 word"
  success :: "32 word"

definition sizeof_V7MInterruptExitReq :: nat where
  "sizeof_V7MInterruptExitReq = 16"

text \<open>The buffer of a request structure, as \<^verbatim>\<open>bytes(req)\<close> reads it.\<close>

definition V7MInterruptExitReq_bytes :: "byteorder \<Rightarrow> V7MInterruptExitReq \<Rightarrow> byte list" where
  "V7MInterruptExitReq_bytes bo r =
     to_bytes bo 8 (req_id r) @ to_bytes bo 4 (num_irq r) @ to_bytes bo 4 (req_type r)"

text \<open>
  \<^verbatim>\<open>V7MInterruptExitReq.from_buffer_copy(buf)\<close>: raises \<^verbatim>\<open>ValueError\<close> when the buffer
  is smaller than the structure, and otherwise copies its first 16 bytes.
\<close>

definition from_buffer_copy :: "byteorder \<Rightarrow> byte list \<Rightarrow> error + V7MInterruptExitReq" where
  "from_buffer_copy bo buf =
     (if length buf < sizeof_V7MInterruptExitReq then Inl ValueError
      else Inr \<lparr> req_id = from_bytes bo (take 8 buf),
                 num_irq = from_bytes bo (take 4 (drop 8 buf)),
                 req_type = from_bytes bo (take 4 (drop 12 buf)) \<rparr>)"

definition V7MInterruptExitResp_bytes :: "byteorder \<Rightarrow> V7MInterruptExitResp \<Rightarrow> byte list" where
  "V7MInterruptExitResp_bytes bo r =
     to_bytes bo 8 (resp_id r) @ to_bytes bo 4 (success r) @ replicate 4 0"

subsection \<open>The owning target and the avatar queue\<close>

text \<open>
  \<^verbatim>\<open>isinstance(self._origin, QemuTarget)\<close> is a case distinction on the target. A
  \<^verbatim>\<open>QemuTarget\<close> carries the queue names of its remote-memory protocol
  (\<^verbatim>\<open>origin.protocols.remote_memory.rx_queue_name\<close> and \<^verbatim>\<open>tx_queue_name\<close>); any other
  target is known by its class only.
\<close>

datatype target =
    QemuTarget (rmem_rx_queue_name: string) (rmem_tx_queue_name: string)
  | OtherTarget (target_class: string)

text \<open>
  \<^verbatim>\<open>RemoteInterruptExitMessage(origin, id, transition_type, interrupt_num)\<close>, the message
  put on the avatar queue.
\<close>

record RemoteInterruptExitMessage =
  msg_origin :: target
  msg_id :: "64 word"
  transition_type :: "32 word"
  interrupt_num :: "32 word"

subsection \<open>The world outside the protocol object\<close>

datatype param = PStr string | PInt int

datatype level = DEBUG | INFO | WARNING | ERROR

text \<open>A log record is kept unformatted: level, format string, arguments.\<close>

datatype logarg = AInt int | AErr error | ATarget target

datatype oflag = O_RDONLY | O_WRONLY

text \<open>A \<^verbatim>\<open>posix_ipc.MessageQueue\<close> object: the name, the access mode, the descriptor.\<close>

record MessageQueue =
  mq_name :: string
  mq_flags :: oflag
  mq_fd :: nat

record world =
  byte_order :: byteorder
  monitor :: "(string \<times> (string \<times> param) list) list"
  avatar_queue :: "RemoteInterruptExitMessage list"
  mq_names :: "string list"
  mq_fds :: "nat list"
  mq_sent :: "(string \<times> byte list) list"
  log :: "(level \<times> string \<times> logarg list) list"
  stdout :: "string list"

text \<open>
  \<open>monitor\<close> holds the commands executed on the monitor of the target, oldest first;
  \<open>mq_names\<close> the names of the message queues that exist in the system; \<open>mq_fds\<close> the
  open message queue descriptors of this process; \<open>mq_sent\<close> the payloads sent, with the
  name of the queue.
\<close>

definition execute_command :: "string \<Rightarrow> (string \<times> param) list \<Rightarrow> world \<Rightarrow> world" where
  "execute_command name args w = w\<lparr>monitor := monitor w @ [(name, args)]\<rparr>"

definition log_msg :: "level \<Rightarrow> string \<Rightarrow> logarg list \<Rightarrow> world \<Rightarrow> world" where
  "log_msg lv fmt args w = w\<lparr>log := log w @ [(lv, fmt, args)]\<rparr>"

definition fresh_fd :: "nat list \<Rightarrow> nat" where
  "fresh_fd fds = Suc (fold max fds 0)"

text \<open>
  \<^verbatim>\<open>MessageQueue(name, flags=...)\<close> without \<^verbatim>\<open>O_CREAT\<close> opens an existing queue and
  raises \<^verbatim>\<open>ExistentialError\<close> when there is none of that name.
\<close>

definition MessageQueue_open :: "string \<Rightarrow> oflag \<Rightarrow> world \<Rightarrow> error + (MessageQueue \<times> world)" where
  "MessageQueue_open name fl w =
     (if name \<in> set (mq_names w)
      then (let fd = fresh_fd (mq_fds w)
            in Inr (\<lparr> mq_name = name, mq_flags = fl, mq_fd = fd \<rparr>,
                    w\<lparr>mq_fds := mq_fds w @ [fd]\<rparr>))
      else Inl ExistentialError)"

definition mq_unlink :: "MessageQueue \<Rightarrow> world \<Rightarrow> error + world" where
  "mq_unlink q w =
     (if mq_name q \<in> set (mq_names w)
      then Inr (w\<lparr>mq_names := removeAll (mq_name q) (mq_names w)\<rparr>)
      else Inl ExistentialError)"

definition mq_close :: "MessageQueue \<Rightarrow> world \<Rightarrow> error + world" where
  "mq_close q w =
     (if mq_fd q \<in> set (mq_fds w)
      then Inr (w\<lparr>mq_fds := removeAll (mq_fd q) (mq_fds w)\<rparr>)
      else Inl ExistentialError)"

definition mq_send :: "MessageQueue \<Rightarrow> byte list \<Rightarrow> world \<Rightarrow> error + world" where
  "mq_send q payload w =
     (if mq_fd q \<in> set (mq_fds w)
      then Inr (w\<lparr>mq_sent := mq_sent w @ [(mq_name q, payload)]\<rparr>)
      else Inl ExistentialError)"

text \<open>
  What one call \<^verbatim>\<open>self._rx_queue.receive(0.5)\<close> gives is decided outside the program:
  a pair of a payload and a priority, or an exception (\<^verbatim>\<open>BusyError\<close> after the timeout
  of half a second, or any other).
\<close>

datatype recv = Received "byte list" nat | Raised error

subsection \<open>The protocol object\<close>

datatype thread_state = NotStarted | Alive | Finished | Died error

record ARMV7MInterruptProtocol =
  rx_queue_name :: string
  tx_queue_name :: string
  rx_queue :: "MessageQueue option"
  tx_queue :: "MessageQueue option"
  origin :: target
  close :: bool
  closed :: bool
  daemon :: bool
  thread :: thread_state

text \<open>\<^verbatim>\<open>__init__(self, origin, rx_queue_name, tx_queue_name)\<close>\<close>

definition init :: "target \<Rightarrow> string \<Rightarrow> string \<Rightarrow> ARMV7MInterruptProtocol" where
  "init orig rx_name tx_name =
     \<lparr> rx_queue_name = rx_name, tx_queue_name = tx_name,
       rx_queue = None, tx_queue = None, origin = orig,
       close = False, closed = False, daemon = False, thread = NotStarted \<rparr>"

subsection \<open>The listener thread\<close>

text \<open>
  The body of the loop of \<^verbatim>\<open>run\<close> after the test of \<^verbatim>\<open>_close\<close>: any exception of
  \<^verbatim>\<open>receive\<close> is swallowed (\<^verbatim>\<open>except: continue\<close>); the payload \<^verbatim>\<open>request[0]\<close> is
  decoded outside the \<^verbatim>\<open>try\<close>, so an exception of \<^verbatim>\<open>from_buffer_copy\<close> leaves the loop
  body as \<open>Inl\<close>.
\<close>

definition loop_body :: "recv \<Rightarrow> ARMV7MInterruptProtocol \<Rightarrow> world \<Rightarrow> error + world" where
  "loop_body r p w =
     (case r of
        Raised e \<Rightarrow> Inr w
      | Received request0 prio \<Rightarrow>
          (case from_buffer_copy (byte_order w) request0 of
             Inl e \<Rightarrow> Inl e
           | Inr req_struct \<Rightarrow>
               (let w1 = log_msg DEBUG ''Received an InterruptExitRequest for irq %d (%x)''
                           [AInt (uint (num_irq req_struct)), AInt (uint (req_type req_struct))] w;
                    msg = \<lparr> msg_origin = origin p, msg_id = req_id req_struct,
                            transition_type = req_type req_struct,
                            interrupt_num = num_irq req_struct \<rparr>
                in Inr (w1\<lparr>avatar_queue := avatar_queue w1 @ [msg]\<rparr>))))"

text \<open>
  \<^verbatim>\<open>run\<close>, on the list of what the successive calls of \<^verbatim>\<open>receive\<close> give. The loop
  leaves through \<^verbatim>\<open>break\<close> when \<^verbatim>\<open>_close\<close> is set, and sets \<^verbatim>\<open>_closed\<close>; an
  exception that is not caught ends the thread and \<^verbatim>\<open>_closed\<close> stays unset. When the
  list is used up the thread is still in the loop (\<open>thread = Alive\<close>).
\<close>

fun run :: "recv list \<Rightarrow> ARMV7MInterruptProtocol \<Rightarrow> world \<Rightarrow> ARMV7MInterruptProtocol \<times> world" where
  "run [] p w =
     (if close p then (p\<lparr>closed := True, thread := Finished\<rparr>, w) else (p, w))"
| "run (r # rs) p w =
     (if close p then (p\<lparr>closed := True, thread := Finished\<rparr>, w)
      else (case loop_body r p w of
              Inl e \<Rightarrow> (p\<lparr>thread := Died e\<rparr>, w)
            | Inr w' \<Rightarrow> run rs p w'))"

text \<open>
  What the listener does once \<^verbatim>\<open>_close\<close> is set. A thread that is alive either tests
  the flag next (\<open>inflight = None\<close>) or has passed the test and is in the loop body, where
  its call of \<^verbatim>\<open>receive\<close> gives \<open>r\<close> (\<open>inflight = Some r\<close>); after that body it tests the
  flag. A thread that was never started, has finished or has died does nothing.
\<close>

definition listener_exit ::
  "recv option \<Rightarrow> ARMV7MInterruptProtocol \<Rightarrow> world \<Rightarrow> ARMV7MInterruptProtocol \<times> world" where
  "listener_exit inflight p w =
     (case thread p of
        Alive \<Rightarrow>
          (case inflight of
             None \<Rightarrow> run [] p w
           | Some r \<Rightarrow>
               (case loop_body r p w of
                  Inl e \<Rightarrow> (p\<lparr>thread := Died e\<rparr>, w)
                | Inr w' \<Rightarrow> run [] p w'))
      | _ \<Rightarrow> (p, w))"

text \<open>
  \<^verbatim>\<open>stop\<close>: \<^verbatim>\<open>self._close.set()\<close>, then \<^verbatim>\<open>self._closed.wait()\<close>. Only the listener
  sets \<^verbatim>\<open>_closed\<close>, so the wait returns when the flag is set already or the listener
  comes to set it, and never otherwise: \<open>None\<close>.
\<close>

definition stop ::
  "recv option \<Rightarrow> ARMV7MInterruptProtocol \<Rightarrow> world \<Rightarrow> (ARMV7MInterruptProtocol \<times> world) option" where
  "stop inflight p w =
     (case listener_exit inflight (p\<lparr>close := True\<rparr>) w of
        (p', w') \<Rightarrow> if closed p' then Some (p', w') else None)"

subsection \<open>Enabling, injecting, answering\<close>

text \<open>\<^verbatim>\<open>Thread.start\<close> raises \<^verbatim>\<open>RuntimeError\<close> on a thread that was started before.\<close>

definition start :: "ARMV7MInterruptProtocol \<Rightarrow> error + ARMV7MInterruptProtocol" where
  "start p = (case thread p of NotStarted \<Rightarrow> Inr (p\<lparr>thread := Alive\<rparr>) | _ \<Rightarrow> Inl RuntimeError)"

definition enable_interrupts ::
  "ARMV7MInterruptProtocol \<Rightarrow> world \<Rightarrow> (error + bool) \<times> ARMV7MInterruptProtocol \<times> world" where
  "enable_interrupts p w =
     (case origin p of
        OtherTarget cls \<Rightarrow>
          (Inl (Exception ''V7MInterruptProtocol is not implemented for %s'' cls), p, w)
      | QemuTarget rmem_rx_qname rmem_tx_qname \<Rightarrow>
          (let w1 = execute_command ''avatar-armv7m-enable-irq''
                      [(''irq_rx_queue_name'', PStr (tx_queue_name p)),
                       (''irq_tx_queue_name'', PStr (rx_queue_name p)),
                       (''rmem_rx_queue_name'', PStr rmem_tx_qname),
                       (''rmem_tx_queue_name'', PStr rmem_rx_qname)] w
           in case MessageQueue_open (rx_queue_name p) O_RDONLY w1 of
                Inl e \<Rightarrow> (Inr False, p, log_msg ERROR ''Unable to create rx_queue: %s'' [AErr e] w1)
              | Inr (rxq, w2) \<Rightarrow>
                  (let p2 = p\<lparr>rx_queue := Some rxq\<rparr>
                   in case MessageQueue_open (tx_queue_name p2) O_WRONLY w2 of
                        Inl e \<Rightarrow>
                          (let w3 = log_msg ERROR ''Unable to create tx_queue: %s'' [AErr e] w2
                           in case mq_close rxq w3 of
                                Inl e' \<Rightarrow> (Inl e', p2, w3)
                              | Inr w4 \<Rightarrow> (Inr False, p2, w4))
                      | Inr (txq, w3) \<Rightarrow>
                          (let p3 = p2\<lparr>tx_queue := Some txq, daemon := True\<rparr>
                           in case start p3 of
                                Inl e \<Rightarrow> (Inl e, p3, w3)
                              | Inr p4 \<Rightarrow>
                                  (Inr True, p4,
                                   log_msg INFO ''Enabled Interrupt Forwarding for %s''
                                     [ATarget (origin p4)] w3)))))"

text \<open>
  \<^verbatim>\<open>inject_interrupt(self, interrupt_number, cpu_number=0)\<close>: the second argument is
  optional and 0 when left out. It returns nothing.
\<close>

definition inject_interrupt ::
  "int \<Rightarrow> int option \<Rightarrow> ARMV7MInterruptProtocol \<Rightarrow> world \<Rightarrow> ARMV7MInterruptProtocol \<times> world" where
  "inject_interrupt interrupt_number cpu_number p w =
     (case origin p of
        QemuTarget rmem_rx_qname rmem_tx_qname \<Rightarrow>
          (let w1 = log_msg INFO ''Injecting interrupt %d'' [AInt interrupt_number] w;
               w2 = execute_command ''avatar-armv7m-inject-irq''
                      [(''num_irq'', PInt interrupt_number),
                       (''num_cpu'', PInt (case cpu_number of None \<Rightarrow> 0 | Some c \<Rightarrow> c))] w1
           in (p, w2\<lparr>stdout := stdout w2 @ [''Done'']\<rparr>))
      | OtherTarget cls \<Rightarrow> (p, w))"

text \<open>
  \<^verbatim>\<open>send_interrupt_exit_response(self, id, success)\<close>: ctypes reduces the two Python
  integers to the width of their fields.
\<close>

definition send_interrupt_exit_response ::
  "int \<Rightarrow> int \<Rightarrow> ARMV7MInterruptProtocol \<Rightarrow> world \<Rightarrow> bool \<times> ARMV7MInterruptProtocol \<times> world" where
  "send_interrupt_exit_response i s p w =
     (let response = \<lparr> resp_id = word_of_int i, success = word_of_int s \<rparr>
      in case (case tx_queue p of
                 None \<Rightarrow> Inl AttributeError
               | Some q \<Rightarrow> mq_send q (V7MInterruptExitResp_bytes (byte_order w) response) w) of
           Inr w1 \<Rightarrow>
             (True, p, log_msg DEBUG ''Send RemoteInterruptResponse with id %d'' [AInt i] w1)
         | Inl e \<Rightarrow> (False, p, log_msg ERROR ''Unable to send response: %s'' [AErr e] w))"

subsection \<open>Shutting down\<close>

text \<open>
  The body of each \<^verbatim>\<open>try\<close> of \<^verbatim>\<open>shutdown\<close> up to the assignment of \<^verbatim>\<open>None\<close>:
  \<^verbatim>\<open>unlink()\<close>, then \<^verbatim>\<open>close()\<close>; the first exception ends it.
\<close>

definition unlink_close :: "MessageQueue \<Rightarrow> world \<Rightarrow> error option \<times> world" where
  "unlink_close q w =
     (case mq_unlink q w of
        Inl e \<Rightarrow> (Some e, w)
      | Inr w1 \<Rightarrow> (case mq_close q w1 of Inl e \<Rightarrow> (Some e, w1) | Inr w2 \<Rightarrow> (None, w2)))"

text \<open>
  \<^verbatim>\<open>shutdown\<close>: \<^verbatim>\<open>stop()\<close> first; then, for each queue object that is not \<^verbatim>\<open>None\<close>,
  the \<^verbatim>\<open>try\<close> above, where \<^verbatim>\<open>ExistentialError\<close> is caught and logged as a warning and
  the attribute keeps the queue object, and any other exception leaves \<^verbatim>\<open>shutdown\<close>.
  \<open>None\<close> is a call that does not return.
\<close>

definition shutdown ::
  "recv option \<Rightarrow> ARMV7MInterruptProtocol \<Rightarrow> world
     \<Rightarrow> ((error + unit) \<times> ARMV7MInterruptProtocol \<times> world) option" where
  "shutdown inflight p w =
     (case stop inflight p w of
        None \<Rightarrow> None
      | Some (p1, w1) \<Rightarrow>
          Some
            (case (case rx_queue p1 of
                     None \<Rightarrow> (None, p1, w1)
                   | Some q \<Rightarrow>
                       (case unlink_close q w1 of
                          (None, w2) \<Rightarrow> (None, p1\<lparr>rx_queue := None\<rparr>, w2)
                        | (Some ExistentialError, w2) \<Rightarrow>
                            (None, p1,
                             log_msg WARNING ''Tried to close/unlink non existent rx_queue'' [] w2)
                        | (Some e, w2) \<Rightarrow> (Some e, p1, w2))) of
               (Some e, p2, w2) \<Rightarrow> (Inl e, p2, w2)
             | (None, p2, w2) \<Rightarrow>
                 (case tx_queue p2 of
                    None \<Rightarrow> (Inr (), p2, w2)
                  | Some q \<Rightarrow>
                      (case unlink_close q w2 of
                         (None, w3) \<Rightarrow> (Inr (), p2\<lparr>tx_queue := None\<rparr>, w3)
                       | (Some ExistentialError, w3) \<Rightarrow>
                           (Inr (), p2,
                            log_msg WARNING ''Tried to close/unlink non existent tx_queue'' [] w3)
                       | (Some e, w3) \<Rightarrow> (Inl e, p2, w3)))))"

subsection \<open>What the listener decodes\<close>

text \<open>
  The requests the listener decodes out of what \<^verbatim>\<open>receive\<close> gives, in the order of
  receipt: an exception of \<^verbatim>\<open>receive\<close> gives none, a payload that decodes gives one,
  and after a payload that does not decode nothing is received any more.
\<close>

fun decoded :: "byteorder \<Rightarrow> recv list \<Rightarrow> V7MInterruptExitReq list" where
  "decoded bo [] = []"
| "decoded bo (Raised e # rs) = decoded bo rs"
| "decoded bo (Received request0 prio # rs) =
     (case from_buffer_copy bo request0 of
        Inl e \<Rightarrow> []
      | Inr req_struct \<Rightarrow> req_struct # decoded bo rs)"

subsection \<open>Example objects\<close>

text \<open>
  A little-endian host on which the two interrupt queues exist and nothing has happened
  yet, and a protocol object as \<^verbatim>\<open>enable_interrupts\<close> leaves it on that host: both
  queues open, the listener started.
\<close>

definition test_world :: world where
  "test_world =
     \<lparr> byte_order = LittleEndian, monitor = [], avatar_queue = [],
       mq_names = [''irq_rx'', ''irq_tx''], mq_fds = [], mq_sent = [], log = [],
       stdout = [] \<rparr>"

definition test_listener :: ARMV7MInterruptProtocol where
  "test_listener =
     \<lparr> rx_queue_name = ''irq_rx'', tx_queue_name = ''irq_tx'',
       rx_queue = Some \<lparr> mq_name = ''irq_rx'', mq_flags = O_RDONLY, mq_fd = 1 \<rparr>,
       tx_queue = Some \<lparr> mq_name = ''irq_tx'', mq_flags = O_WRONLY, mq_fd = 2 \<rparr>,
       origin = QemuTarget ''rmem_rx'' ''rmem_tx'',
       close = False, closed = False, daemon = True, thread = Alive \<rparr>"

section \<open>Properties of the codec\<close>

lemma length_to_bytes_le: "length (to_bytes_le n w) = n"
  by (induction n arbitrary: w) simp_all

lemma length_to_bytes: "length (to_bytes bo n w) = n"
  by (cases bo) (simp_all add: to_bytes_def length_to_bytes_le)

lemma from_to_bytes_le:
  "(from_bytes_le (to_bytes_le n w) :: 'a::len word) = take_bit (8 * n) w"
proof (induction n arbitrary: w)
  case 0
  show ?case by simp
next
  case (Suc n)
  have "ucast (ucast w :: byte) OR push_bit 8 (take_bit (8 * n) (drop_bit 8 w))
          = take_bit (8 * Suc n) w"
    by (rule bit_eqI) (auto simp: bit_simps)
  with Suc show ?case by simp
qed

lemma from_to_bytes:
  "(from_bytes bo (to_bytes bo n w) :: 'a::len word) = take_bit (8 * n) w"
  by (cases bo) (simp_all add: from_bytes_def to_bytes_def from_to_bytes_le)

lemma from_to_bytes_u64: "from_bytes bo (to_bytes bo 8 (w :: 64 word)) = w"
proof -
  have "take_bit (8 * 8) w = w"
    by (rule take_bit_word_eq_self) simp
  then show ?thesis by (simp only: from_to_bytes)
qed

lemma from_to_bytes_u32: "from_bytes bo (to_bytes bo 4 (w :: 32 word)) = w"
proof -
  have "take_bit (8 * 4) w = w"
    by (rule take_bit_word_eq_self) simp
  then show ?thesis by (simp only: from_to_bytes)
qed

lemma length_V7MInterruptExitReq_bytes:
  "length (V7MInterruptExitReq_bytes bo r) = 16"
  by (simp add: V7MInterruptExitReq_bytes_def length_to_bytes)

text \<open>
  C4. For every triple of a 64-bit id and 32-bit irq number and return type, the buffer
  of the request structure built from the triple has the fixed size of 16 bytes, and
  decoding that buffer gives back the structure with exactly these three fields, in
  either byte order.
\<close>

theorem V7MInterruptExitReq_roundtrip:
  "from_buffer_copy bo
     (V7MInterruptExitReq_bytes bo \<lparr> req_id = i, num_irq = n, req_type = t \<rparr>)
   = Inr \<lparr> req_id = i, num_irq = n, req_type = t \<rparr>"
proof -
  let ?a = "to_bytes bo 8 i" and ?b = "to_bytes bo 4 n" and ?c = "to_bytes bo 4 t"
  have la: "length ?a = 8" and lb: "length ?b = 4" and lc: "length ?c = 4"
    by (simp_all add: length_to_bytes)
  have t1: "take 8 (?a @ ?b @ ?c) = ?a"
    using la by simp
  have t2: "take 4 (drop 8 (?a @ ?b @ ?c)) = ?b"
    using la lb by simp
  have t3: "take 4 (drop 12 (?a @ ?b @ ?c)) = ?c"
    using la lb lc by simp
  have len: "\<not> length (?a @ ?b @ ?c) < sizeof_V7MInterruptExitReq"
    using la lb lc by (simp add: sizeof_V7MInterruptExitReq_def)
  have "from_buffer_copy bo (?a @ ?b @ ?c)
          = Inr \<lparr> req_id = from_bytes bo ?a, num_irq = from_bytes bo ?b,
                    req_type = from_bytes bo ?c \<rparr>"
    by (simp only: from_buffer_copy_def t1 t2 t3 len if_False)
  then show ?thesis
    by (simp only: V7MInterruptExitReq_bytes_def V7MInterruptExitReq.simps
          from_to_bytes_u64 from_to_bytes_u32)
qed

section \<open>Properties of the message queue descriptors\<close>

lemma fold_max_ge: "x \<in> set fds \<Longrightarrow> x \<le> fold max fds (a::nat)"
proof (induction fds arbitrary: a)
  case Nil
  then show ?case by simp
next
  case (Cons y ys)
  have mono: "b \<le> fold max ys (b::nat)" for b
    by (induction ys arbitrary: b) (auto intro: order_trans [OF max.cobounded2])
  from Cons show ?case
    by (auto intro: order_trans [OF max.cobounded1 mono])
qed

lemma fresh_fd_notin: "fresh_fd fds \<notin> set fds"
proof
  assume "fresh_fd fds \<in> set fds"
  then have "fresh_fd fds \<le> fold max fds 0" by (rule fold_max_ge)
  then show False by (simp add: fresh_fd_def)
qed

section \<open>Enabling\<close>

text \<open>
  C5. When the target is not a \<^verbatim>\<open>QemuTarget\<close>, \<^verbatim>\<open>enable_interrupts\<close> raises the
  exception "V7MInterruptProtocol is not implemented for ..." and leaves the protocol
  object and the world as they were: no command went to the monitor, no queue was
  opened, the listener was not started.
\<close>

theorem enable_interrupts_unsupported_target:
  "origin p = OtherTarget cls \<Longrightarrow>
     enable_interrupts p w
       = (Inl (Exception ''V7MInterruptProtocol is not implemented for %s'' cls), p, w)"
  by (simp add: enable_interrupts_def)

theorem enable_interrupts_unsupported_target_witness:
  "origin (init (OtherTarget ''GDBTarget'') ''irq_rx'' ''irq_tx'') = OtherTarget ''GDBTarget''
   \<and> enable_interrupts (init (OtherTarget ''GDBTarget'') ''irq_rx'' ''irq_tx'') test_world
       = (Inl (Exception ''V7MInterruptProtocol is not implemented for %s'' ''GDBTarget''),
          init (OtherTarget ''GDBTarget'') ''irq_rx'' ''irq_tx'', test_world)"
  using enable_interrupts_unsupported_target
          [of "init (OtherTarget ''GDBTarget'') ''irq_rx'' ''irq_tx''" "''GDBTarget''" test_world]
  by (simp add: init_def)

text \<open>
  C9. On a \<^verbatim>\<open>QemuTarget\<close>, \<^verbatim>\<open>enable_interrupts\<close> sends the monitor exactly one command,
  \<^verbatim>\<open>avatar-armv7m-enable-irq\<close>, whatever happens to the queues afterwards. Its
  parameters name the queues from the side of the emulator: \<^verbatim>\<open>irq_rx_queue_name\<close> is
  the tx queue name of the protocol, \<^verbatim>\<open>irq_tx_queue_name\<close> its rx queue name,
  \<^verbatim>\<open>rmem_rx_queue_name\<close> the tx queue name of the remote-memory protocol and
  \<^verbatim>\<open>rmem_tx_queue_name\<close> its rx queue name.
\<close>

theorem enable_interrupts_command:
  "origin p = QemuTarget rmem_rx rmem_tx \<Longrightarrow>
     monitor (snd (snd (enable_interrupts p w)))
       = monitor w @
         [(''avatar-armv7m-enable-irq'',
           [(''irq_rx_queue_name'', PStr (tx_queue_name p)),
            (''irq_tx_queue_name'', PStr (rx_queue_name p)),
            (''rmem_rx_queue_name'', PStr rmem_tx),
            (''rmem_tx_queue_name'', PStr rmem_rx)])]"
  by (simp add: enable_interrupts_def execute_command_def log_msg_def MessageQueue_open_def
        mq_close_def start_def Let_def split: thread_state.splits)

theorem enable_interrupts_command_witness:
  "origin (init (QemuTarget ''rmem_rx'' ''rmem_tx'') ''irq_rx'' ''irq_tx'')
     = QemuTarget ''rmem_rx'' ''rmem_tx''
   \<and> monitor (snd (snd (enable_interrupts
                          (init (QemuTarget ''rmem_rx'' ''rmem_tx'') ''irq_rx'' ''irq_tx'')
                          test_world)))
       = [(''avatar-armv7m-enable-irq'',
           [(''irq_rx_queue_name'', PStr ''irq_tx''),
            (''irq_tx_queue_name'', PStr ''irq_rx''),
            (''rmem_rx_queue_name'', PStr ''rmem_tx''),
            (''rmem_tx_queue_name'', PStr ''rmem_rx'')])]"
  using enable_interrupts_command
          [of "init (QemuTarget ''rmem_rx'' ''rmem_tx'') ''irq_rx'' ''irq_tx''"
              "''rmem_rx''" "''rmem_tx''" test_world]
  by (simp add: init_def test_world_def)

text \<open>
  C6. On a \<^verbatim>\<open>QemuTarget\<close>, when the rx queue opens and the tx queue does not,
  \<^verbatim>\<open>enable_interrupts\<close> returns \<^verbatim>\<open>False\<close> with the descriptor of the rx queue closed
  again: the open descriptors are those from before the call, no tx queue object was
  stored and the listener was not started. And whenever either queue fails to open, the
  outcome is the value \<^verbatim>\<open>False\<close>, not an exception.
\<close>

theorem enable_interrupts_open_failure:
  assumes "origin p = QemuTarget rmem_rx rmem_tx"
  shows "(rx_queue_name p \<in> set (mq_names w) \<and> tx_queue_name p \<notin> set (mq_names w) \<longrightarrow>
           (case enable_interrupts p w of
              (r, p', w') \<Rightarrow>
                r = Inr False
                \<and> rx_queue p' = Some \<lparr> mq_name = rx_queue_name p, mq_flags = O_RDONLY,
                                       mq_fd = fresh_fd (mq_fds w) \<rparr>
                \<and> fresh_fd (mq_fds w) \<notin> set (mq_fds w')
                \<and> mq_fds w' = mq_fds w
                \<and> tx_queue p' = tx_queue p \<and> thread p' = thread p))
       \<and> (rx_queue_name p \<notin> set (mq_names w) \<or> tx_queue_name p \<notin> set (mq_names w) \<longrightarrow>
            fst (enable_interrupts p w) = Inr False)"
  using assms fresh_fd_notin [of "mq_fds w"]
  by (simp add: enable_interrupts_def execute_command_def log_msg_def MessageQueue_open_def
        mq_close_def Let_def)

theorem enable_interrupts_open_failure_witness:
  "origin (init (QemuTarget ''rmem_rx'' ''rmem_tx'') ''irq_rx'' ''irq_tx'')
     = QemuTarget ''rmem_rx'' ''rmem_tx''
   \<and> ''irq_rx'' \<in> set (mq_names (test_world\<lparr>mq_names := [''irq_rx'']\<rparr>))
   \<and> ''irq_tx'' \<notin> set (mq_names (test_world\<lparr>mq_names := [''irq_rx'']\<rparr>))
   \<and> (case enable_interrupts (init (QemuTarget ''rmem_rx'' ''rmem_tx'') ''irq_rx'' ''irq_tx'')
             (test_world\<lparr>mq_names := [''irq_rx'']\<rparr>) of
        (r, p', w') \<Rightarrow>
          r = Inr False
          \<and> rx_queue p' = Some \<lparr> mq_name = ''irq_rx'', mq_flags = O_RDONLY, mq_fd = 1 \<rparr>
          \<and> 1 \<notin> set (mq_fds w')
          \<and> mq_fds w' = []
          \<and> tx_queue p' = None \<and> thread p' = NotStarted)"
  using enable_interrupts_open_failure
          [of "init (QemuTarget ''rmem_rx'' ''rmem_tx'') ''irq_rx'' ''irq_tx''"
              "''rmem_rx''" "''rmem_tx''" "test_world\<lparr>mq_names := [''irq_rx'']\<rparr>"]
  by (simp add: init_def test_world_def fresh_fd_def)

section \<open>The listener\<close>

text \<open>One pass of the loop body that does not raise puts exactly one message on the
  avatar queue, with the fields of the decoded request.\<close>

lemma loop_body_forwards_one:
  "loop_body (Received request0 prio) p w = Inr w' \<Longrightarrow>
     \<exists>req_struct. from_buffer_copy (byte_order w) request0 = Inr req_struct
       \<and> avatar_queue w' = avatar_queue w @
            [\<lparr> msg_origin = origin p, msg_id = req_id req_struct,
               transition_type = req_type req_struct,
               interrupt_num = num_irq req_struct \<rparr>]"
  by (auto simp: loop_body_def log_msg_def Let_def split: sum.splits)

lemma run_receive_failure:
  "\<not> close p \<Longrightarrow> run (Raised e # rs) p w = run rs p w"
  by (simp add: loop_body_def)

text \<open>A payload of fewer than 16 bytes ends the thread: \<^verbatim>\<open>_closed\<close> is not set and
  nothing that follows is received.\<close>

lemma run_decode_failure:
  "\<not> close p \<Longrightarrow> length request0 < 16 \<Longrightarrow>
     run (Received request0 prio # rs) p w = (p\<lparr>thread := Died ValueError\<rparr>, w)"
  by (simp add: loop_body_def from_buffer_copy_def sizeof_V7MInterruptExitReq_def)

text \<open>
  C7. While \<^verbatim>\<open>_close\<close> is not set, the listener appends to the avatar queue exactly one
  \<^verbatim>\<open>RemoteInterruptExitMessage\<close> for each request it decodes, carrying the target and
  the \<^verbatim>\<open>id\<close>, \<^verbatim>\<open>type\<close> and \<^verbatim>\<open>num_irq\<close> of that request, in the order in which the
  requests were received; nothing else is put on the queue.
\<close>

theorem run_forwards_in_order:
  "\<not> close p \<Longrightarrow>
     avatar_queue (snd (run rs p w))
       = avatar_queue w @
         map (\<lambda>req_struct.
                \<lparr> msg_origin = origin p, msg_id = req_id req_struct,
                  transition_type = req_type req_struct,
                  interrupt_num = num_irq req_struct \<rparr>)
             (decoded (byte_order w) rs)"
proof (induction rs arbitrary: w)
  case Nil
  then show ?case by simp
next
  case (Cons r rs)
  show ?case
  proof (cases r)
    case (Raised e)
    with Cons show ?thesis by (simp add: loop_body_def)
  next
    case (Received request0 prio)
    show ?thesis
    proof (cases "from_buffer_copy (byte_order w) request0")
      case (Inl e)
      with Received Cons.prems show ?thesis by (simp add: loop_body_def)
    next
      case (Inr req_struct)
      with Received Cons.prems Cons.IH show ?thesis
        by (simp add: loop_body_def log_msg_def Let_def)
    qed
  qed
qed

text \<open>The requests with ids 1, 2, 3 for the interrupts 5, 6, 7, with a timeout of
  \<^verbatim>\<open>receive\<close> between the second and the third.\<close>

theorem run_forwards_in_order_witness:
  "\<not> close test_listener
   \<and> avatar_queue (snd (run
        [Received [1, 0, 0, 0, 0, 0, 0, 0, 5, 0, 0, 0, 0xF9, 0xFF, 0xFF, 0xFF] 0,
         Received [2, 0, 0, 0, 0, 0, 0, 0, 6, 0, 0, 0, 0xF9, 0xFF, 0xFF, 0xFF] 0,
         Raised BusyError,
         Received [3, 0, 0, 0, 0, 0, 0, 0, 7, 0, 0, 0, 0xF9, 0xFF, 0xFF, 0xFF] 0]
        test_listener test_world))
     = [\<lparr> msg_origin = QemuTarget ''rmem_rx'' ''rmem_tx'', msg_id = 1,
          transition_type = 0xFFFFFFF9, interrupt_num = 5 \<rparr>,
        \<lparr> msg_origin = QemuTarget ''rmem_rx'' ''rmem_tx'', msg_id = 2,
          transition_type = 0xFFFFFFF9, interrupt_num = 6 \<rparr>,
        \<lparr> msg_origin = QemuTarget ''rmem_rx'' ''rmem_tx'', msg_id = 3,
          transition_type = 0xFFFFFFF9, interrupt_num = 7 \<rparr>]"
  using run_forwards_in_order
          [of test_listener
              "[Received [1, 0, 0, 0, 0, 0, 0, 0, 5, 0, 0, 0, 0xF9, 0xFF, 0xFF, 0xFF] 0,
                Received [2, 0, 0, 0, 0, 0, 0, 0, 6, 0, 0, 0, 0xF9, 0xFF, 0xFF, 0xFF] 0,
                Raised BusyError,
                Received [3, 0, 0, 0, 0, 0, 0, 0, 7, 0, 0, 0, 0xF9, 0xFF, 0xFF, 0xFF] 0]"
              test_world]
  by (simp add: test_listener_def test_world_def from_buffer_copy_def
        sizeof_V7MInterruptExitReq_def from_bytes_def)

text \<open>
  C1. The claim is that a payload that does not decode is reported, dropped, and the
  loop polls on. The code at a payload of three bytes, followed by a well-formed request:
  \<^verbatim>\<open>from_buffer_copy\<close> raises \<^verbatim>\<open>ValueError\<close> outside the \<^verbatim>\<open>try\<close>, the thread ends
  with that exception, nothing is logged, the request that follows is never forwarded,
  \<^verbatim>\<open>_closed\<close> stays unset, and a later \<^verbatim>\<open>shutdown\<close> does not return.
\<close>

theorem run_short_payload_kills_listener:
  "run [Received [1, 2, 3] 0,
        Received [1, 0, 0, 0, 0, 0, 0, 0, 5, 0, 0, 0, 0xF9, 0xFF, 0xFF, 0xFF] 0]
       test_listener test_world
     = (test_listener\<lparr>thread := Died ValueError\<rparr>, test_world)
   \<and> shutdown None (test_listener\<lparr>thread := Died ValueError\<rparr>) test_world = None"
  by (simp add: test_listener_def test_world_def loop_body_def from_buffer_copy_def
        sizeof_V7MInterruptExitReq_def shutdown_def stop_def listener_exit_def)

section \<open>Injecting\<close>

text \<open>
  C8. On a \<^verbatim>\<open>QemuTarget\<close>, \<^verbatim>\<open>inject_interrupt\<close> sends the monitor exactly one command,
  \<^verbatim>\<open>avatar-armv7m-inject-irq\<close>, with \<^verbatim>\<open>num_irq\<close> the interrupt number and \<^verbatim>\<open>num_cpu\<close>
  the cpu number, 0 when none is given. Nothing is sent on a queue, no queue is opened,
  closed or unlinked, nothing is put on the avatar queue, and the protocol object is
  unchanged.
\<close>

theorem inject_interrupt_qemu:
  "origin p = QemuTarget rmem_rx rmem_tx \<Longrightarrow>
     (case inject_interrupt n cpu p w of
        (p', w') \<Rightarrow>
          monitor w' = monitor w @
            [(''avatar-armv7m-inject-irq'',
              [(''num_irq'', PInt n),
               (''num_cpu'', PInt (case cpu of None \<Rightarrow> 0 | Some c \<Rightarrow> c))])]
          \<and> mq_sent w' = mq_sent w \<and> mq_fds w' = mq_fds w \<and> mq_names w' = mq_names w
          \<and> avatar_queue w' = avatar_queue w \<and> p' = p)"
  by (simp add: inject_interrupt_def execute_command_def log_msg_def)

theorem inject_interrupt_qemu_witness:
  "origin test_listener = QemuTarget ''rmem_rx'' ''rmem_tx''
   \<and> (case inject_interrupt 7 (Some 1) test_listener test_world of
        (p', w') \<Rightarrow>
          monitor w'
            = [(''avatar-armv7m-inject-irq'', [(''num_irq'', PInt 7), (''num_cpu'', PInt 1)])]
          \<and> mq_sent w' = [] \<and> mq_fds w' = [] \<and> mq_names w' = [''irq_rx'', ''irq_tx'']
          \<and> avatar_queue w' = [] \<and> p' = test_listener)
   \<and> (case inject_interrupt 7 None test_listener test_world of
        (p', w') \<Rightarrow>
          monitor w'
            = [(''avatar-armv7m-inject-irq'', [(''num_irq'', PInt 7), (''num_cpu'', PInt 0)])]
          \<and> mq_sent w' = [] \<and> mq_fds w' = [] \<and> mq_names w' = [''irq_rx'', ''irq_tx'']
          \<and> avatar_queue w' = [] \<and> p' = test_listener)"
  using inject_interrupt_qemu
          [where p = test_listener and rmem_rx = "''rmem_rx''" and rmem_tx = "''rmem_tx''"
             and n = 7 and cpu = "Some 1" and w = test_world]
        inject_interrupt_qemu
          [where p = test_listener and rmem_rx = "''rmem_rx''" and rmem_tx = "''rmem_tx''"
             and n = 7 and cpu = None and w = test_world]
  by (simp add: test_listener_def test_world_def)

text \<open>
  C10. When the target is not a \<^verbatim>\<open>QemuTarget\<close>, \<^verbatim>\<open>inject_interrupt\<close> does nothing at
  all: it returns with the protocol object and the world as they were (no command, no
  log record, no output, no exception), where \<^verbatim>\<open>enable_interrupts\<close> raises an exception
  for the same target.
\<close>

theorem inject_interrupt_unsupported_target:
  "origin p = OtherTarget cls \<Longrightarrow>
     inject_interrupt n cpu p w = (p, w)
     \<and> fst (enable_interrupts p w)
         = Inl (Exception ''V7MInterruptProtocol is not implemented for %s'' cls)"
  by (simp add: inject_interrupt_def enable_interrupts_def)

theorem inject_interrupt_unsupported_target_witness:
  "origin (init (OtherTarget ''GDBTarget'') ''irq_rx'' ''irq_tx'') = OtherTarget ''GDBTarget''
   \<and> inject_interrupt 7 (Some 1) (init (OtherTarget ''GDBTarget'') ''irq_rx'' ''irq_tx'')
         test_world
       = (init (OtherTarget ''GDBTarget'') ''irq_rx'' ''irq_tx'', test_world)
   \<and> fst (enable_interrupts (init (OtherTarget ''GDBTarget'') ''irq_rx'' ''irq_tx'') test_world)
       = Inl (Exception ''V7MInterruptProtocol is not implemented for %s'' ''GDBTarget'')"
  using inject_interrupt_unsupported_target
          [where p = "init (OtherTarget ''GDBTarget'') ''irq_rx'' ''irq_tx''"
             and cls = "''GDBTarget''" and n = 7 and cpu = "Some 1" and w = test_world]
  by (simp add: init_def)

section \<open>Stopping and shutting down\<close>

text \<open>
  Time is counted in polling passes, that is in calls of \<^verbatim>\<open>receive\<close>, each of which
  lasts half a second at most. A listener that is alive tests \<^verbatim>\<open>_close\<close> before every
  call of \<^verbatim>\<open>receive\<close>, so once the flag is set it makes no further call: it is either
  at the test, or in the one call it made before the flag was set.
\<close>

lemma run_after_close:
  "close p \<Longrightarrow> run rs p w = (p\<lparr>closed := True, thread := Finished\<rparr>, w)"
  by (cases rs) simp_all

lemma stop_listener_at_test:
  "thread p = Alive \<Longrightarrow>
     stop None p w = Some (p\<lparr>close := True, closed := True, thread := Finished\<rparr>, w)"
  by (simp add: stop_def listener_exit_def)

lemma stop_listener_in_receive_failure:
  "thread p = Alive \<Longrightarrow>
     stop (Some (Raised e)) p w
       = Some (p\<lparr>close := True, closed := True, thread := Finished\<rparr>, w)"
  by (simp add: stop_def listener_exit_def loop_body_def)

text \<open>With no listener to set \<^verbatim>\<open>_closed\<close>, \<^verbatim>\<open>stop\<close> waits for ever.\<close>

lemma stop_not_started:
  "thread p = NotStarted \<Longrightarrow> \<not> closed p \<Longrightarrow> stop inflight p w = None"
  by (simp add: stop_def listener_exit_def)

lemma stop_dead_listener:
  "thread p = Died e \<Longrightarrow> \<not> closed p \<Longrightarrow> stop inflight p w = None"
  by (simp add: stop_def listener_exit_def)

text \<open>
  C2. The claim is that \<^verbatim>\<open>shutdown\<close> returns without error in every state, also when
  \<^verbatim>\<open>enable_interrupts\<close> never completed. The code on a protocol object as \<^verbatim>\<open>__init__\<close>
  leaves it, for any target, any queue names and any world: \<^verbatim>\<open>shutdown\<close> calls
  \<^verbatim>\<open>stop\<close> first, which waits for \<^verbatim>\<open>_closed\<close>; no listener was started to set it, and
  the call does not return.
\<close>

theorem shutdown_never_enabled_blocks:
  "shutdown inflight (init orig rx_name tx_name) w = None"
  by (simp add: shutdown_def stop_def listener_exit_def init_def)

text \<open>The same after an \<^verbatim>\<open>enable_interrupts\<close> that returned \<^verbatim>\<open>False\<close>.\<close>

lemma shutdown_after_failed_enable_blocks:
  "fst (enable_interrupts p w) = Inr False \<Longrightarrow> thread p = NotStarted \<Longrightarrow> \<not> closed p \<Longrightarrow>
     shutdown inflight (fst (snd (enable_interrupts p w))) (snd (snd (enable_interrupts p w)))
       = None"
  by (auto simp: enable_interrupts_def shutdown_def stop_def listener_exit_def Let_def start_def
      split: target.splits sum.splits prod.splits thread_state.splits)

text \<open>
  With the listener running and both queues in existence, \<^verbatim>\<open>shutdown\<close> unlinks and
  closes both, and a second \<^verbatim>\<open>shutdown\<close> returns at once and changes nothing.
\<close>

lemma shutdown_twice_after_enable:
  "shutdown None test_listener (test_world\<lparr>mq_fds := [1, 2]\<rparr>)
     = Some (Inr (),
             test_listener\<lparr>rx_queue := None, tx_queue := None, close := True,
                            closed := True, thread := Finished\<rparr>,
             test_world\<lparr>mq_names := []\<rparr>)
   \<and> shutdown None
       (test_listener\<lparr>rx_queue := None, tx_queue := None, close := True,
                       closed := True, thread := Finished\<rparr>)
       (test_world\<lparr>mq_names := []\<rparr>)
     = Some (Inr (),
             test_listener\<lparr>rx_queue := None, tx_queue := None, close := True,
                            closed := True, thread := Finished\<rparr>,
             test_world\<lparr>mq_names := []\<rparr>)"
  by (simp add: test_listener_def test_world_def shutdown_def stop_def listener_exit_def
        unlink_close_def mq_unlink_def mq_close_def)

text \<open>
  When the queues were unlinked by the other side already, \<^verbatim>\<open>unlink()\<close> raises
  \<^verbatim>\<open>ExistentialError\<close> before \<^verbatim>\<open>close()\<close> is reached: a warning is logged, and both
  descriptors stay open.
\<close>

lemma shutdown_unlinked_queue_keeps_descriptor:
  "shutdown None test_listener (test_world\<lparr>mq_fds := [1, 2], mq_names := []\<rparr>)
     = Some (Inr (),
             test_listener\<lparr>close := True, closed := True, thread := Finished\<rparr>,
             test_world\<lparr>mq_fds := [1, 2], mq_names := [],
               log := [(WARNING, ''Tried to close/unlink non existent rx_queue'', []),
                       (WARNING, ''Tried to close/unlink non existent tx_queue'', [])]\<rparr>)"
  by (simp add: test_listener_def test_world_def shutdown_def stop_def listener_exit_def
        unlink_close_def mq_unlink_def mq_close_def log_msg_def)

subsection \<open>How long shutting down takes\<close>

text \<open>
  With the listener alive, \<^verbatim>\<open>shutdown\<close> returns when no message arrives: at once when
  the listener is at its test of \<^verbatim>\<open>_close\<close>, and after the one call of \<^verbatim>\<open>receive\<close>
  in flight when that call times out or raises. It returns as well when that call gives
  a payload that decodes.
\<close>

lemma shutdown_returns_without_message:
  "thread p = Alive \<Longrightarrow>
     shutdown None p w \<noteq> None \<and> shutdown (Some (Raised e)) p w \<noteq> None"
  by (simp add: shutdown_def stop_def listener_exit_def loop_body_def)

lemma shutdown_returns_after_decoded_request:
  "thread p = Alive \<Longrightarrow> 16 \<le> length request0 \<Longrightarrow>
     shutdown (Some (Received request0 prio)) p w \<noteq> None"
  by (simp add: shutdown_def stop_def listener_exit_def loop_body_def from_buffer_copy_def
        sizeof_V7MInterruptExitReq_def Let_def)

text \<open>When the call in flight gives a payload of fewer than 16 bytes, \<^verbatim>\<open>shutdown\<close>
  does not return at all.\<close>

lemma shutdown_blocks_after_short_payload:
  "thread p = Alive \<Longrightarrow> \<not> closed p \<Longrightarrow> length request0 < 16 \<Longrightarrow>
     shutdown (Some (Received request0 prio)) p w = None"
  by (simp add: shutdown_def stop_def listener_exit_def loop_body_def from_buffer_copy_def
        sizeof_V7MInterruptExitReq_def)

text \<open>
  C3. The claim is that on every protocol object whose listener is running,
  \<^verbatim>\<open>shutdown\<close> returns within two polling intervals. The code on a running listener
  with both queues open: \<^verbatim>\<open>shutdown\<close> returns when the listener is at its test of
  \<^verbatim>\<open>_close\<close>, and when the call of \<^verbatim>\<open>receive\<close> in flight times out; when that call
  gives a payload of three bytes, \<^verbatim>\<open>from_buffer_copy\<close> raises outside the \<^verbatim>\<open>try\<close>,
  the listener ends without setting \<^verbatim>\<open>_closed\<close>, and \<^verbatim>\<open>shutdown\<close> never returns,
  within no number of polling intervals.
\<close>

theorem shutdown_short_payload_in_flight_blocks:
  "thread test_listener = Alive
   \<and> shutdown None test_listener (test_world\<lparr>mq_fds := [1, 2]\<rparr>) \<noteq> None
   \<and> shutdown (Some (Raised BusyError)) test_listener (test_world\<lparr>mq_fds := [1, 2]\<rparr>)
       \<noteq> None
   \<and> shutdown (Some (Received [1, 2, 3] 0)) test_listener (test_world\<lparr>mq_fds := [1, 2]\<rparr>)
       = None"
  by (simp add: test_listener_def test_world_def shutdown_def stop_def listener_exit_def
        loop_body_def from_buffer_copy_def sizeof_V7MInterruptExitReq_def)

end
